theory Spec2Isabelle
  imports Main "HOL-Library.Word"
begin

section \<open>The SG Ready controller of \<open>src/main.cpp\<close>\<close>

text \<open>
  The firmware keeps four file-scope variables and reacts to three callbacks: the
  one-second countdown timer (\<open>updateMode\<close>), an inbound MQTT message
  (\<open>onMqttMessage\<close>) and a publish acknowledgement (\<open>onMqttPublish\<close>).
  The callbacks are modelled as functions on a record of the globals. Everything a
  callback hands to a collaborator (serial log, OLED, output pin, MQTT client) is
  appended, in program order, to the \<open>trace\<close> field.
\<close>

subsection \<open>Constants\<close>

type_synonym uint32_t = "32 word"

definition MIN_STATE_SECONDS :: int where
  "MIN_STATE_SECONDS = 600"

definition MQTT_KEEPALIVE_INTERVAL :: uint32_t where
  "MQTT_KEEPALIVE_INTERVAL = word_of_int (MIN_STATE_SECONDS div 10)"

definition MQTT_DEAD_TIME :: uint32_t where
  "MQTT_DEAD_TIME = MQTT_KEEPALIVE_INTERVAL * 3"

definition SG_PIN_LSB :: nat where
  "SG_PIN_LSB = 25"

definition g_excessName :: string where
  "g_excessName = ''Excess''"

definition g_modeName :: string where
  "g_modeName = ''Mode''"

subsection \<open>Collaborator calls and the globals\<close>

datatype fmt_arg = ArgStr string | ArgInt int | ArgUInt uint32_t

text \<open>
  \<open>Display\<close> carries the three lines of \<open>DrawDisplay\<close> that depend on the globals
  (mode, excess, and the remaining seconds \<open>MIN_STATE_SECONDS - g_currentStateTime\<close>
  computed in \<open>uint32_t\<close>); the WiFi and MQTT lines come from the collaborators.
  \<open>MqttPublish\<close> carries topic, qos, retain flag and payload.
\<close>

datatype effect =
    SerialPrintf string "fmt_arg list"
  | SerialPrint string
  | Display int bool uint32_t
  | DigitalWrite nat bool
  | MqttPublish string nat bool string

record state =
  g_excess :: bool
  g_currentMode :: int
  g_mqttLastResponseTime :: uint32_t
  g_currentStateTime :: uint32_t
  trace :: "effect list"

definition emit :: "effect \<Rightarrow> state \<Rightarrow> state" where
  "emit e s = s\<lparr>trace := trace s @ [e]\<rparr>"

text \<open>The globals as initialised at lines 60 to 63, before any callback has run.\<close>

definition startup :: state where
  "startup = \<lparr>g_excess = False, g_currentMode = 0, g_mqttLastResponseTime = 0,
              g_currentStateTime = 0, trace = []\<rparr>"

subsection \<open>Helpers\<close>

text \<open>\<open>String(int)\<close> of the Arduino core: the decimal rendering.\<close>

fun dec_digits :: "nat \<Rightarrow> string" where
  "dec_digits n =
     (if n < 10 then [char_of (48 + n)]
      else dec_digits (n div 10) @ [char_of (48 + n mod 10)])"

definition String_int :: "int \<Rightarrow> string" where
  "String_int i = (if i < 0 then CHR ''-'' # dec_digits (nat (- i)) else dec_digits (nat i))"

definition DrawDisplay :: "state \<Rightarrow> state" where
  "DrawDisplay s =
     emit (Display (g_currentMode s) (g_excess s)
             (word_of_int MIN_STATE_SECONDS - g_currentStateTime s)) s"

definition setPins :: "state \<Rightarrow> state" where
  "setPins s =
     emit (DigitalWrite SG_PIN_LSB (g_currentMode s \<noteq> 0))
       (emit (SerialPrintf ''Setting pins for mode %i.\<newline>'' [ArgInt (g_currentMode s)]) s)"

definition uniqueID :: string where
  "uniqueID = ''sgready_board''"

definition entityTopic :: "string \<Rightarrow> string" where
  "entityTopic name = uniqueID @ ''_'' @ name"

definition mqttPublishExcess :: "state \<Rightarrow> state" where
  "mqttPublishExcess s =
     (let topic = entityTopic g_excessName @ ''/state'' in
      emit (MqttPublish topic 1 True (if g_excess s then ''ON'' else ''OFF''))
        (emit (SerialPrintf ''Publishing excess '%s'.\<newline>''
                 [ArgStr (if g_excess s then ''ON'' else ''OFF'')]) s))"

definition mqttPublishMode :: "state \<Rightarrow> state" where
  "mqttPublishMode s =
     (let topic = entityTopic g_modeName @ ''/state'' in
      emit (MqttPublish topic 1 True (String_int (g_currentMode s)))
        (emit (SerialPrintf ''Publishing mode %i.\<newline>'' [ArgInt (g_currentMode s)]) s))"

subsection \<open>The countdown timer callback\<close>

text \<open>
  The deadness test of lines 140 to 142: the \<open>uint32_t\<close> difference of the two
  clocks against \<open>MQTT_DEAD_TIME\<close>.
\<close>

definition mqttDead :: "uint32_t \<Rightarrow> uint32_t \<Rightarrow> bool" where
  "mqttDead now lastResponse = (let mqttDiff = now - lastResponse in mqttDiff > MQTT_DEAD_TIME)"

text \<open>Lines 160 to 165: the commit.\<close>

definition commit :: "state \<Rightarrow> state" where
  "commit s =
     (let s1 = s\<lparr>g_currentStateTime := 0\<rparr>;
          s2 = s1\<lparr>g_currentMode := of_bool (g_excess s1)\<rparr>
      in DrawDisplay (mqttPublishExcess (mqttPublishMode (setPins s2))))"

text \<open>
  Lines 142 to 154. \<open>Inl\<close> is the early \<open>return\<close> of the paranoid branch,
  \<open>Inr\<close> falls through to line 157.
\<close>

definition deadBranch :: "state \<Rightarrow> state + state" where
  "deadBranch s =
     (if mqttDead (g_currentStateTime s) (g_mqttLastResponseTime s) then
        (if g_excess s then
           Inr ((emit (SerialPrintf
                   ''No MQTT response received in %u seconds, reverting to normal mode.\<newline>''
                   [ArgUInt (g_currentStateTime s - g_mqttLastResponseTime s)]) s)
                \<lparr>g_excess := False\<rparr>)
         else
           Inl (if g_currentStateTime s mod 30 = 0
                then setPins (emit (SerialPrint ''Paranoid pin set: '') s)
                else s))
      else Inr s)"

text \<open>
  Lines 129 to 136 up to the increment: the display refresh, the keep-alive publish
  tested on the clock as it stands, and then \<open>++g_currentStateTime\<close>.
\<close>

definition advanceClock :: "state \<Rightarrow> state" where
  "advanceClock s0 =
     (let s1 = DrawDisplay s0;
          s2 = (if g_currentStateTime s1 mod MQTT_KEEPALIVE_INTERVAL = 0
                then mqttPublishMode s1 else s1)
      in s2\<lparr>g_currentStateTime := g_currentStateTime s2 + 1\<rparr>)"

text \<open>
  \<open>updateMode\<close>, lines 128 to 166. The comparison \<open>++g_currentStateTime < MIN_STATE_SECONDS\<close>
  is between a \<open>uint32_t\<close> and an \<open>int\<close> literal, so it is unsigned; the comparison
  \<open>g_currentMode == g_excess\<close> promotes the \<open>bool\<close> to \<open>int\<close>.
\<close>

definition updateMode :: "state \<Rightarrow> state" where
  "updateMode s0 =
     (let s3 = advanceClock s0
      in if g_currentStateTime s3 < word_of_int MIN_STATE_SECONDS then s3
         else (case deadBranch s3 of
                 Inl s4 \<Rightarrow> s4
               | Inr s4 \<Rightarrow>
                   if g_currentMode s4 = of_bool (g_excess s4) then s4 else commit s4))"

text \<open>
  The path condition of the dead branch: the tick taken from \<open>s0\<close> gets past the
  dwell gate of line 136 and the test of line 142 succeeds.
\<close>

definition judgedDead :: "state \<Rightarrow> bool" where
  "judgedDead s0 =
     (let s3 = advanceClock s0
      in \<not> g_currentStateTime s3 < word_of_int MIN_STATE_SECONDS \<and>
         mqttDead (g_currentStateTime s3) (g_mqttLastResponseTime s3))"

subsection \<open>The MQTT callbacks\<close>

text \<open>
  \<open>onMqttMessage\<close>, lines 305 to 324. \<open>topic\<close> and \<open>payload\<close> are the two
  \<open>String\<close> values built at lines 306 and 307; the remaining parameters are unused.
\<close>

definition onMqttMessage :: "string \<Rightarrow> string \<Rightarrow> state \<Rightarrow> state" where
  "onMqttMessage sTopic sPayload s0 =
     (let s1 = s0\<lparr>g_excess := False\<rparr>;
          s2 = (if sTopic = entityTopic g_excessName @ ''/set'' then
                  (if sPayload = ''ON'' then s1\<lparr>g_excess := True\<rparr>
                   else if sPayload \<noteq> ''OFF''
                        then emit (SerialPrintf ''Error: Invalid MQTT payload '%s'.''
                                     [ArgStr sPayload]) s1
                        else s1)
                else emit (SerialPrintf ''Error: MQTT message for unknown topic '%s'.''
                             [ArgStr sTopic]) s1)
      in DrawDisplay (mqttPublishExcess s2))"

text \<open>\<open>onMqttPublish\<close>, lines 326 to 330.\<close>

definition onMqttPublish :: "16 word \<Rightarrow> state \<Rightarrow> state" where
  "onMqttPublish packetId s = s\<lparr>g_mqttLastResponseTime := g_currentStateTime s\<rparr>"

subsection \<open>Runs of the controller\<close>

text \<open>
  The callbacks never run concurrently, so a run of the controller is a list of
  callback invocations applied in order.
\<close>

datatype event = Tick | Message string string | PublishAck "16 word"

fun step :: "event \<Rightarrow> state \<Rightarrow> state" where
  "step Tick s = updateMode s"
| "step (Message sTopic sPayload) s = onMqttMessage sTopic sPayload s"
| "step (PublishAck packetId) s = onMqttPublish packetId s"

fun run :: "event list \<Rightarrow> state \<Rightarrow> state" where
  "run [] s = s"
| "run (e # es) s = run es (step e s)"

subsection \<open>Observations on states, traces and runs\<close>

text \<open>
  The specification's \<open>setDesired\<close> is the delivery of one of the two valid commands
  to \<open>onMqttMessage\<close> on the command topic.
\<close>

definition setDesired :: "bool \<Rightarrow> state \<Rightarrow> state" where
  "setDesired excess s =
     onMqttMessage (entityTopic g_excessName @ ''/set'') (if excess then ''ON'' else ''OFF'') s"

definition globals :: "state \<Rightarrow> bool \<times> int \<times> uint32_t \<times> uint32_t" where
  "globals s = (g_excess s, g_currentMode s, g_mqttLastResponseTime s, g_currentStateTime s)"

fun isModePublish :: "effect \<Rightarrow> bool" where
  "isModePublish (MqttPublish topic qos retain payload) = (topic = entityTopic g_modeName @ ''/state'')"
| "isModePublish _ = False"

definition modePublishes :: "effect list \<Rightarrow> nat" where
  "modePublishes tr = length (filter isModePublish tr)"

fun isPinWrite :: "effect \<Rightarrow> bool" where
  "isPinWrite (DigitalWrite pin level) = True"
| "isPinWrite _ = False"


text \<open>
  The state of the specification's lost-acknowledgement scenario: Excess is committed
  and requested, and the last acknowledgement was recorded when the clock read 50.
\<close>

definition ackLostAt50 :: state where
  "ackLostAt50 = \<lparr>g_excess = True, g_currentMode = 1, g_mqttLastResponseTime = 50,
                  g_currentStateTime = 50, trace = []\<rparr>"

text \<open>
  A run from startup in which acknowledgements arrive until Excess has been committed
  and acknowledged, and the request is then withdrawn: \<open>ON\<close> is commanded, the
  publish of tick 541 is acknowledged, the tick that brings the clock to 600 commits
  Excess, its publish is acknowledged, and \<open>OFF\<close> is commanded.
\<close>

definition commitExcessThenOff :: "event list" where
  "commitExcessThenOff =
     [Message (entityTopic g_excessName @ ''/set'') ''ON''] @ replicate 541 Tick @
     [PublishAck 0] @ replicate 59 Tick @
     [PublishAck 0, Message (entityTopic g_excessName @ ''/set'') ''OFF'']"



section \<open>Basic facts about the callbacks\<close>

subsection \<open>Clock arithmetic\<close>

lemma unat_succ_small:
  fixes x :: "32 word"
  assumes "unat x + 1 < 2 ^ 32"
  shows "unat (x + 1) = unat x + 1"
proof -
  have "unat x + unat (1 :: 32 word) < 2 ^ LENGTH(32)"
    using assms by simp
  then have "unat (x + 1) = unat x + unat (1 :: 32 word)"
    by (simp only: unat_add_lem)
  then show ?thesis by simp
qed

lemma succ_less_600:
  fixes x :: "32 word"
  assumes "unat x + 1 < 600"
  shows "x + 1 < 600"
proof -
  have "unat (x + 1) = unat x + 1"
    using assms by (intro unat_succ_small) simp
  then show ?thesis
    using assms by (simp add: word_less_nat_alt)
qed


lemma unat_of_nat32:
  "n < 2 ^ 32 \<Longrightarrow> unat (of_nat n :: uint32_t) = n"
  by (simp add: unat_of_nat)

lemma of_nat_mod_60:
  assumes "n < 2 ^ 32"
  shows "(of_nat n :: uint32_t) mod 60 = 0 \<longleftrightarrow> n mod 60 = 0"
proof -
  have "unat ((of_nat n :: uint32_t) mod 60) = unat (of_nat n :: uint32_t) mod unat (60 :: uint32_t)"
    by (rule unat_mod)
  then have "unat ((of_nat n :: uint32_t) mod 60) = n mod 60"
    using assms by (simp add: unat_of_nat32)
  then show ?thesis
    by (metis unat_eq_0)
qed

lemma heartbeats_step:
  "(Suc n + 59) div 60 = (n + 59) div 60 + (if n mod 60 = 0 then 1 else 0)"
proof -
  have a: "(Suc n + 59) div 60 = Suc (n div 60)"
    by simp
  have b: "(n + 59) div 60 = (n mod 60 + 59) div 60 + n div 60"
  proof -
    have "n + 59 = (n mod 60 + 59) + (n div 60) * 60"
      by simp
    then have "(n + 59) div 60 = ((n mod 60 + 59) + (n div 60) * 60) div 60"
      by (simp only:)
    also have "\<dots> = n div 60 + (n mod 60 + 59) div 60"
      by (rule div_mult_self1) simp
    finally show ?thesis by simp
  qed
  have c: "(n mod 60 + 59) div 60 = (if n mod 60 = 0 then 0 else 1)"
  proof (cases "n mod 60 = 0")
    case True
    then show ?thesis by simp
  next
    case False
    have "n mod 60 < 60" by simp
    with False have "(n mod 60 + 59) div 60 = 1"
      by (intro div_nat_eqI) simp_all
    with False show ?thesis by simp
  qed
  show ?thesis
    unfolding a b c by simp
qed

subsection \<open>What each callback does to the globals\<close>

lemma emit_fields [simp]:
  "g_excess (emit e s) = g_excess s"
  "g_currentMode (emit e s) = g_currentMode s"
  "g_mqttLastResponseTime (emit e s) = g_mqttLastResponseTime s"
  "g_currentStateTime (emit e s) = g_currentStateTime s"
  "trace (emit e s) = trace s @ [e]"
  by (simp_all add: emit_def)

lemma DrawDisplay_fields [simp]:
  "g_excess (DrawDisplay s) = g_excess s"
  "g_currentMode (DrawDisplay s) = g_currentMode s"
  "g_mqttLastResponseTime (DrawDisplay s) = g_mqttLastResponseTime s"
  "g_currentStateTime (DrawDisplay s) = g_currentStateTime s"
  by (simp_all add: DrawDisplay_def)

lemma setPins_fields [simp]:
  "g_excess (setPins s) = g_excess s"
  "g_currentMode (setPins s) = g_currentMode s"
  "g_mqttLastResponseTime (setPins s) = g_mqttLastResponseTime s"
  "g_currentStateTime (setPins s) = g_currentStateTime s"
  by (simp_all add: setPins_def)

lemma mqttPublishExcess_fields [simp]:
  "g_excess (mqttPublishExcess s) = g_excess s"
  "g_currentMode (mqttPublishExcess s) = g_currentMode s"
  "g_mqttLastResponseTime (mqttPublishExcess s) = g_mqttLastResponseTime s"
  "g_currentStateTime (mqttPublishExcess s) = g_currentStateTime s"
  by (simp_all add: mqttPublishExcess_def)

lemma mqttPublishMode_fields [simp]:
  "g_excess (mqttPublishMode s) = g_excess s"
  "g_currentMode (mqttPublishMode s) = g_currentMode s"
  "g_mqttLastResponseTime (mqttPublishMode s) = g_mqttLastResponseTime s"
  "g_currentStateTime (mqttPublishMode s) = g_currentStateTime s"
  by (simp_all add: mqttPublishMode_def)

lemma commit_fields [simp]:
  "g_excess (commit s) = g_excess s"
  "g_currentMode (commit s) = of_bool (g_excess s)"
  "g_mqttLastResponseTime (commit s) = g_mqttLastResponseTime s"
  "g_currentStateTime (commit s) = 0"
  by (simp_all add: commit_def)

lemma policy_constants [simp]:
  "word_of_int MIN_STATE_SECONDS = (600 :: uint32_t)"
  "MQTT_KEEPALIVE_INTERVAL = 60"
  "MQTT_DEAD_TIME = 180"
  by (simp_all add: MIN_STATE_SECONDS_def MQTT_KEEPALIVE_INTERVAL_def MQTT_DEAD_TIME_def)

lemma advanceClock_fields [simp]:
  "g_excess (advanceClock s) = g_excess s"
  "g_currentMode (advanceClock s) = g_currentMode s"
  "g_mqttLastResponseTime (advanceClock s) = g_mqttLastResponseTime s"
  "g_currentStateTime (advanceClock s) = g_currentStateTime s + 1"
  by (simp_all add: advanceClock_def Let_def)

text \<open>What one timer tick does to the four globals.\<close>

lemma updateMode_time:
  "g_currentStateTime (updateMode s) =
     (let t = g_currentStateTime s + 1 in
      if t < 600 then t
      else if mqttDead t (g_mqttLastResponseTime s) then
             (if g_excess s then (if g_currentMode s = 0 then t else 0) else t)
      else if g_currentMode s = of_bool (g_excess s) then t else 0)"
  by (simp add: updateMode_def advanceClock_def deadBranch_def Let_def)

lemma updateMode_mode:
  "g_currentMode (updateMode s) =
     (let t = g_currentStateTime s + 1 in
      if t < 600 then g_currentMode s
      else if mqttDead t (g_mqttLastResponseTime s) then
             (if g_excess s then 0 else g_currentMode s)
      else of_bool (g_excess s))"
  by (auto simp add: updateMode_def advanceClock_def deadBranch_def Let_def)

lemma updateMode_excess:
  "g_excess (updateMode s) =
     (let t = g_currentStateTime s + 1 in
      g_excess s \<and> (t < 600 \<or> \<not> mqttDead t (g_mqttLastResponseTime s)))"
  by (auto simp add: updateMode_def advanceClock_def deadBranch_def Let_def)

lemma updateMode_last:
  "g_mqttLastResponseTime (updateMode s) = g_mqttLastResponseTime s"
  by (auto simp add: updateMode_def advanceClock_def deadBranch_def Let_def)


lemma judgedDead_iff:
  "judgedDead s \<longleftrightarrow>
     \<not> g_currentStateTime s + 1 < 600 \<and>
     mqttDead (g_currentStateTime s + 1) (g_mqttLastResponseTime s)"
  by (simp add: judgedDead_def Let_def)

lemma onMqttMessage_fields [simp]:
  "g_currentMode (onMqttMessage t p s) = g_currentMode s"
  "g_mqttLastResponseTime (onMqttMessage t p s) = g_mqttLastResponseTime s"
  "g_currentStateTime (onMqttMessage t p s) = g_currentStateTime s"
  by (simp_all add: onMqttMessage_def Let_def)

lemma onMqttMessage_excess:
  "g_excess (onMqttMessage t p s) = (t = entityTopic g_excessName @ ''/set'' \<and> p = ''ON'')"
  by (simp add: onMqttMessage_def Let_def)

lemma onMqttPublish_fields [simp]:
  "g_excess (onMqttPublish i s) = g_excess s"
  "g_currentMode (onMqttPublish i s) = g_currentMode s"
  "g_mqttLastResponseTime (onMqttPublish i s) = g_currentStateTime s"
  "g_currentStateTime (onMqttPublish i s) = g_currentStateTime s"
  "trace (onMqttPublish i s) = trace s"
  by (simp_all add: onMqttPublish_def)

lemma globals_iff:
  "globals s = (e, m, l, c) \<longleftrightarrow>
     g_excess s = e \<and> g_currentMode s = m \<and> g_mqttLastResponseTime s = l \<and>
     g_currentStateTime s = c"
  by (auto simp add: globals_def)

lemma globals_updateMode:
  assumes "globals s = (e, m, l, c)"
  shows "globals (updateMode s) =
     (if c + 1 < 600 then (e, m, l, c + 1)
      else if mqttDead (c + 1) l then
             (if e then (False, 0, l, if m = 0 then c + 1 else 0) else (e, m, l, c + 1))
      else (e, of_bool e, l, if m = of_bool e then c + 1 else 0))"
  using assms
  by (auto simp add: globals_iff updateMode_mode updateMode_time updateMode_excess
        updateMode_last Let_def)

lemma globals_onMqttMessage:
  assumes "globals s = (e, m, l, c)"
  shows "globals (onMqttMessage t p s) =
     (t = entityTopic g_excessName @ ''/set'' \<and> p = ''ON'', m, l, c)"
  using assms by (simp add: globals_iff onMqttMessage_excess)

lemma globals_onMqttPublish:
  assumes "globals s = (e, m, l, c)"
  shows "globals (onMqttPublish i s) = (e, m, c, c)"
  using assms by (simp add: globals_iff)

subsection \<open>Ticks below the dwell threshold\<close>

text \<open>A tick that changes the mode went through the commit, which zeroes the clock.\<close>

lemma mode_change_resets:
  "g_currentMode (updateMode s) \<noteq> g_currentMode s \<Longrightarrow> g_currentStateTime (updateMode s) = 0"
  by (auto simp add: updateMode_mode updateMode_time Let_def split: if_splits)

lemma no_change_advances:
  "g_currentMode (updateMode s) = g_currentMode s \<Longrightarrow>
     g_currentStateTime (updateMode s) = g_currentStateTime s + 1"
  by (auto simp add: updateMode_mode updateMode_time Let_def split: if_splits)

lemma tick_below_dwell:
  assumes "unat (g_currentStateTime s) + 1 < 600"
  shows "g_currentMode (updateMode s) = g_currentMode s"
    and "g_excess (updateMode s) = g_excess s"
    and "g_mqttLastResponseTime (updateMode s) = g_mqttLastResponseTime s"
    and "g_currentStateTime (updateMode s) = g_currentStateTime s + 1"
    and "unat (g_currentStateTime (updateMode s)) = unat (g_currentStateTime s) + 1"
proof -
  have lt: "g_currentStateTime s + 1 < 600"
    using assms by (rule succ_less_600)
  show "g_currentMode (updateMode s) = g_currentMode s"
    using lt by (simp add: updateMode_mode Let_def)
  show "g_excess (updateMode s) = g_excess s"
    using lt by (simp add: updateMode_excess Let_def)
  show "g_mqttLastResponseTime (updateMode s) = g_mqttLastResponseTime s"
    by (rule updateMode_last)
  show eq: "g_currentStateTime (updateMode s) = g_currentStateTime s + 1"
    using lt by (simp add: updateMode_time Let_def)
  show "unat (g_currentStateTime (updateMode s)) = unat (g_currentStateTime s) + 1"
    unfolding eq using assms by (intro unat_succ_small) simp
qed

lemma run_below_dwell:
  "unat (g_currentStateTime s) + count_list es Tick < 600 \<Longrightarrow>
     g_currentMode (run es s) = g_currentMode s \<and>
     unat (g_currentStateTime (run es s)) = unat (g_currentStateTime s) + count_list es Tick"
proof (induction es arbitrary: s)
  case Nil
  then show ?case by simp
next
  case (Cons e es)
  show ?case
  proof (cases e)
    case Tick
    with Cons.prems have b: "unat (g_currentStateTime s) + 1 < 600" by simp
    have "unat (g_currentStateTime (updateMode s)) + count_list es Tick < 600"
      using Cons.prems Tick by (simp add: tick_below_dwell(5)[OF b])
    from Cons.IH[OF this] show ?thesis
      using Tick by (simp add: tick_below_dwell(1)[OF b] tick_below_dwell(5)[OF b])
  next
    case (Message t p)
    with Cons.prems have "unat (g_currentStateTime (onMqttMessage t p s)) + count_list es Tick < 600"
      by simp
    from Cons.IH[OF this] show ?thesis using Message by simp
  next
    case (PublishAck i)
    with Cons.prems have "unat (g_currentStateTime (onMqttPublish i s)) + count_list es Tick < 600"
      by simp
    from Cons.IH[OF this] show ?thesis using PublishAck by simp
  qed
qed

lemma run_append: "run (xs @ ys) s = run ys (run xs s)"
  by (induction xs arbitrary: s) simp_all

lemma run_ticks_Suc: "run (replicate (Suc n) Tick) s = updateMode (run (replicate n Tick) s)"
proof -
  have "replicate (Suc n) Tick = replicate n Tick @ [Tick]"
    by (simp flip: replicate_append_same)
  then show ?thesis
    by (simp only: run_append run.simps step.simps)
qed

lemma ticks_below_dwell:
  "unat (g_currentStateTime s) + n < 600 \<Longrightarrow>
     g_excess (run (replicate n Tick) s) = g_excess s \<and>
     g_currentMode (run (replicate n Tick) s) = g_currentMode s \<and>
     g_mqttLastResponseTime (run (replicate n Tick) s) = g_mqttLastResponseTime s \<and>
     g_currentStateTime (run (replicate n Tick) s) = g_currentStateTime s + of_nat n"
proof (induction n arbitrary: s)
  case 0
  then show ?case by simp
next
  case (Suc n)
  then have b: "unat (g_currentStateTime s) + 1 < 600" by simp
  have "unat (g_currentStateTime (updateMode s)) + n < 600"
    using Suc.prems by (simp add: tick_below_dwell(5)[OF b])
  from Suc.IH[OF this] show ?case
    by (simp add: tick_below_dwell(1-4)[OF b])
qed

lemma globals_ticks_below_dwell:
  assumes "globals s = (e, m, l, c)" and "unat c + n < 600"
  shows "globals (run (replicate n Tick) s) = (e, m, l, c + of_nat n)"
proof -
  from assms have "unat (g_currentStateTime s) + n < 600"
    by (simp add: globals_iff)
  from ticks_below_dwell[OF this] assms(1) show ?thesis
    by (simp add: globals_iff)
qed

lemma idle_tick:
  assumes "g_currentMode s = 0" and "\<not> g_excess s"
  shows "g_currentMode (updateMode s) = 0" and "\<not> g_excess (updateMode s)"
  using assms by (simp_all add: updateMode_mode updateMode_excess Let_def)

lemma idle_ticks:
  "g_currentMode s = 0 \<Longrightarrow> \<not> g_excess s \<Longrightarrow>
     g_currentMode (run (replicate n Tick) s) = 0 \<and> \<not> g_excess (run (replicate n Tick) s)"
  by (induction n arbitrary: s) (simp_all add: idle_tick)

subsection \<open>What the message handler emits\<close>

lemma DrawDisplay_trace:
  "trace (DrawDisplay s) =
     trace s @ [Display (g_currentMode s) (g_excess s) (600 - g_currentStateTime s)]"
  by (simp add: DrawDisplay_def)

lemma mqttPublishExcess_trace:
  "trace (mqttPublishExcess s) =
     trace s @ [SerialPrintf ''Publishing excess '%s'.\<newline>''
                  [ArgStr (if g_excess s then ''ON'' else ''OFF'')],
                MqttPublish (entityTopic g_excessName @ ''/state'') 1 True
                  (if g_excess s then ''ON'' else ''OFF'')]"
  by (simp add: mqttPublishExcess_def Let_def)

lemma onMqttMessage_trace:
  "trace (onMqttMessage t p s) =
     trace s @
     (if t = entityTopic g_excessName @ ''/set''
      then (if p = ''ON'' \<or> p = ''OFF'' then []
            else [SerialPrintf ''Error: Invalid MQTT payload '%s'.'' [ArgStr p]])
      else [SerialPrintf ''Error: MQTT message for unknown topic '%s'.'' [ArgStr t]]) @
     [SerialPrintf ''Publishing excess '%s'.\<newline>''
        [ArgStr (if g_excess (onMqttMessage t p s) then ''ON'' else ''OFF'')],
      MqttPublish (entityTopic g_excessName @ ''/state'') 1 True
        (if g_excess (onMqttMessage t p s) then ''ON'' else ''OFF''),
      Display (g_currentMode s) (g_excess (onMqttMessage t p s)) (600 - g_currentStateTime s)]"
  by (simp add: onMqttMessage_def Let_def DrawDisplay_trace mqttPublishExcess_trace)

subsection \<open>Counting mode publishes\<close>

lemma state_topics_differ:
  "entityTopic g_excessName @ ''/state'' \<noteq> entityTopic g_modeName @ ''/state''"
  by (simp add: entityTopic_def g_excessName_def g_modeName_def)

lemma modePublishes_simps:
  "modePublishes [] = 0"
  "modePublishes (e # tr) = (if isModePublish e then 1 else 0) + modePublishes tr"
  "modePublishes (tr @ tr') = modePublishes tr + modePublishes tr'"
  by (simp_all add: modePublishes_def)

lemma modePublishes_helpers:
  "modePublishes (trace (DrawDisplay s)) = modePublishes (trace s)"
  "modePublishes (trace (setPins s)) = modePublishes (trace s)"
  "modePublishes (trace (mqttPublishExcess s)) = modePublishes (trace s)"
  "modePublishes (trace (mqttPublishMode s)) = Suc (modePublishes (trace s))"
  using state_topics_differ
  by (simp_all add: DrawDisplay_def setPins_def mqttPublishExcess_def mqttPublishMode_def
        modePublishes_simps Let_def)

lemma modePublishes_commit:
  "modePublishes (trace (commit s)) = Suc (modePublishes (trace s))"
  by (simp add: commit_def Let_def modePublishes_helpers)

lemma modePublishes_advanceClock:
  "modePublishes (trace (advanceClock s)) =
     modePublishes (trace s) + (if g_currentStateTime s mod 60 = 0 then 1 else 0)"
  by (simp add: advanceClock_def Let_def modePublishes_helpers)

lemma modePublishes_updateMode:
  "modePublishes (trace (updateMode s)) =
     modePublishes (trace s) +
     (if g_currentStateTime s mod 60 = 0 then 1 else 0) +
     (if g_currentMode (updateMode s) \<noteq> g_currentMode s then 1 else 0)"
  apply (simp add: updateMode_mode Let_def)
  apply (simp add: updateMode_def Let_def deadBranch_def modePublishes_commit
      modePublishes_advanceClock modePublishes_helpers modePublishes_simps)
  done

lemma cadence_without_commit:
  assumes "g_currentStateTime s = 0"
    and "\<forall>k < n. g_currentMode (run (replicate (Suc k) Tick) s) =
                    g_currentMode (run (replicate k Tick) s)"
    and "n \<le> 2 ^ 32"
  shows "g_currentStateTime (run (replicate n Tick) s) = of_nat n \<and>
         modePublishes (trace (run (replicate n Tick) s)) =
           modePublishes (trace s) + (n + 59) div 60"
  using assms(2,3)
proof (induction n)
  case 0
  then show ?case using assms(1) by simp
next
  case (Suc n)
  let ?sn = "run (replicate n Tick) s"
  from Suc.prems have IH: "g_currentStateTime ?sn = of_nat n"
    "modePublishes (trace ?sn) = modePublishes (trace s) + (n + 59) div 60"
    using Suc.IH by simp_all
  from Suc.prems(1) have "g_currentMode (run (replicate (Suc n) Tick) s) = g_currentMode ?sn"
    by blast
  then have same: "g_currentMode (updateMode ?sn) = g_currentMode ?sn"
    by (simp only: run_ticks_Suc)
  have n: "n < 2 ^ 32" using Suc.prems by simp
  have t: "g_currentStateTime (updateMode ?sn) = of_nat (Suc n)"
    using no_change_advances[OF same] IH(1) by simp
  have "(Suc n + 59) div 60 = (n + 59) div 60 + (if n mod 60 = 0 then 1 else 0)"
    by (rule heartbeats_step)
  then have "modePublishes (trace (updateMode ?sn)) =
      modePublishes (trace s) + (Suc n + 59) div 60"
    using same IH by (simp add: modePublishes_updateMode of_nat_mod_60[OF n])
  with t show ?case
    by (simp only: run_ticks_Suc) 
qed

subsection \<open>The paranoid branch\<close>

text \<open>
  Once the request is Normal and the last acknowledgement was recorded at a clock reading
  below 420, every tick that gets past the dwell gate takes the paranoid branch and
  returns: ticks alone change neither the mode nor the request.
\<close>

lemma dead_after_gate:
  fixes t l :: uint32_t
  assumes "\<not> t < 600" and "unat l < 420"
  shows "mqttDead t l"
proof -
  from assms(1) have t: "600 \<le> unat t"
    by (simp add: word_less_nat_alt)
  with assms(2) have "l \<le> t"
    by (simp add: word_le_nat_alt)
  then have "unat (t - l) = unat t - unat l"
    by (rule unat_sub)
  with t assms(2) have "180 < unat (t - l)"
    by simp
  then show ?thesis
    by (simp add: mqttDead_def word_less_nat_alt)
qed

lemma paranoid_tick:
  assumes "\<not> g_excess s" and "unat (g_mqttLastResponseTime s) < 420"
  shows "g_currentMode (updateMode s) = g_currentMode s"
    and "\<not> g_excess (updateMode s)"
    and "g_mqttLastResponseTime (updateMode s) = g_mqttLastResponseTime s"
  using assms dead_after_gate[of "g_currentStateTime s + 1" "g_mqttLastResponseTime s"]
  by (auto simp add: updateMode_mode updateMode_excess updateMode_last Let_def)

lemma paranoid_ticks:
  "\<not> g_excess s \<Longrightarrow> unat (g_mqttLastResponseTime s) < 420 \<Longrightarrow>
     g_currentMode (run (replicate n Tick) s) = g_currentMode s"
proof (induction n arbitrary: s)
  case 0
  then show ?case by simp
next
  case (Suc n)
  from Suc.prems have "\<not> g_excess (updateMode s)"
    and "unat (g_mqttLastResponseTime (updateMode s)) < 420"
    by (simp_all add: paranoid_tick)
  from Suc.IH[OF this] Suc.prems show ?case
    by (simp add: paranoid_tick)
qed

subsection \<open>Ticks since the last acknowledgement\<close>





section \<open>The dwell invariant\<close>

text \<open>
  Claim C1. A commit is the only place where \<open>g_currentMode\<close> is written, and it
  always changes it. If a tick commits, and after any further events (ticks, messages
  and acknowledgements in any order) the mode differs from the committed one, then those
  events contain at least \<open>MIN_STATE_SECONDS = 600\<close> ticks: two commits are never
  less than 600 ticks apart.
\<close>

theorem dwell_invariant:
  assumes "g_currentMode (updateMode s) \<noteq> g_currentMode s"
    and "g_currentMode (run es (updateMode s)) \<noteq> g_currentMode (updateMode s)"
  shows "600 \<le> count_list es Tick"
proof (rule ccontr)
  assume "\<not> 600 \<le> count_list es Tick"
  moreover have "g_currentStateTime (updateMode s) = 0"
    using assms(1) by (rule mode_change_resets)
  ultimately have "unat (g_currentStateTime (updateMode s)) + count_list es Tick < 600"
    by simp
  from run_below_dwell[OF this] assms(2) show False by simp
qed

theorem dwell_invariant_witness:
  "g_currentMode (updateMode (startup\<lparr>g_excess := True, g_currentStateTime := 599,
       g_mqttLastResponseTime := 599\<rparr>)) \<noteq>
     g_currentMode (startup\<lparr>g_excess := True, g_currentStateTime := 599,
       g_mqttLastResponseTime := 599\<rparr>) \<and>
   g_currentMode (run (Message (entityTopic g_excessName @ ''/set'') ''OFF'' # replicate 600 Tick)
       (updateMode (startup\<lparr>g_excess := True, g_currentStateTime := 599,
          g_mqttLastResponseTime := 599\<rparr>))) \<noteq>
     g_currentMode (updateMode (startup\<lparr>g_excess := True, g_currentStateTime := 599,
       g_mqttLastResponseTime := 599\<rparr>)) \<and>
   600 \<le> count_list (Message (entityTopic g_excessName @ ''/set'') ''OFF'' # replicate 600 Tick) Tick"
proof -
  define s where "s = startup\<lparr>g_excess := True, g_currentStateTime := 599,
       g_mqttLastResponseTime := 599\<rparr>"
  define c where "c = onMqttMessage (entityTopic g_excessName @ ''/set'') ''OFF'' (updateMode s)"
  have m: "g_currentMode (updateMode s) = 1" "g_currentStateTime (updateMode s) = 0"
    "g_mqttLastResponseTime (updateMode s) = 599"
    by (simp_all add: s_def startup_def updateMode_mode updateMode_time updateMode_last
          mqttDead_def Let_def)
  have h1: "g_currentMode (updateMode s) \<noteq> g_currentMode s"
    by (simp add: m) (simp add: s_def startup_def)
  have c: "g_currentMode c = 1" "g_currentStateTime c = 0" "g_mqttLastResponseTime c = 599"
    "\<not> g_excess c"
    by (simp_all add: c_def m onMqttMessage_excess)
  have "unat (g_currentStateTime c) + 599 < 600"
    by (simp add: c)
  from ticks_below_dwell[OF this]
  have t: "g_currentMode (run (replicate 599 Tick) c) = 1"
    "g_currentStateTime (run (replicate 599 Tick) c) = 599"
    "g_mqttLastResponseTime (run (replicate 599 Tick) c) = 599"
    "\<not> g_excess (run (replicate 599 Tick) c)"
    by (simp_all add: c)
  have "run (replicate 600 Tick) c = updateMode (run (replicate 599 Tick) c)"
    using run_ticks_Suc[of 599 c] by simp
  then have "g_currentMode (run (replicate 600 Tick) c) = 0"
    by (simp add: updateMode_mode t mqttDead_def Let_def)
  then have h2: "g_currentMode (run (Message (entityTopic g_excessName @ ''/set'') ''OFF'' #
       replicate 600 Tick) (updateMode s)) \<noteq> g_currentMode (updateMode s)"
    by (simp add: m c_def)
  from dwell_invariant[OF h1 h2] h1 h2 show ?thesis
    unfolding s_def by blast
qed

section \<open>Messages for another topic\<close>

text \<open>
  Claim C3 says that a message whose topic is not the command topic leaves
  \<open>g_excess\<close>, the mode and both clocks as they were. Line 309 clears \<open>g_excess\<close>
  before the topic is looked at, so a message for any other topic arriving while
  \<open>g_excess\<close> is set clears it.
\<close>

theorem unknown_topic_counterexample:
  "g_excess (onMqttMessage ''sgready_board_Mode/state'' ''ON'' (startup\<lparr>g_excess := True\<rparr>)) \<noteq>
   g_excess (startup\<lparr>g_excess := True\<rparr>)"
  by (simp add: onMqttMessage_excess entityTopic_def uniqueID_def g_excessName_def)

text \<open>
  Claim C3, as amended: a message whose topic is not the command topic sets
  \<open>g_excess\<close> to false, leaves the mode and both clocks unchanged, logs the
  unknown-topic diagnostic and publishes \<open>OFF\<close> on the switch state topic.
\<close>

theorem unknown_topic_handling:
  assumes "sTopic \<noteq> entityTopic g_excessName @ ''/set''"
  shows "g_excess (onMqttMessage sTopic sPayload s) = False \<and>
         g_currentMode (onMqttMessage sTopic sPayload s) = g_currentMode s \<and>
         g_currentStateTime (onMqttMessage sTopic sPayload s) = g_currentStateTime s \<and>
         g_mqttLastResponseTime (onMqttMessage sTopic sPayload s) = g_mqttLastResponseTime s \<and>
         trace (onMqttMessage sTopic sPayload s) =
           trace s @
           [SerialPrintf ''Error: MQTT message for unknown topic '%s'.'' [ArgStr sTopic],
            SerialPrintf ''Publishing excess '%s'.\<newline>'' [ArgStr ''OFF''],
            MqttPublish (entityTopic g_excessName @ ''/state'') 1 True ''OFF'',
            Display (g_currentMode s) False (600 - g_currentStateTime s)]"
  using assms by (simp add: onMqttMessage_excess onMqttMessage_trace)

theorem unknown_topic_handling_witness:
  "''sgready_board_Mode/state'' \<noteq> entityTopic g_excessName @ ''/set'' \<and>
   g_excess (onMqttMessage ''sgready_board_Mode/state'' ''ON'' (startup\<lparr>g_excess := True\<rparr>)) = False \<and>
   g_currentMode (onMqttMessage ''sgready_board_Mode/state'' ''ON'' (startup\<lparr>g_excess := True\<rparr>)) = 0"
proof -
  have h: "''sgready_board_Mode/state'' \<noteq> entityTopic g_excessName @ ''/set''"
    by (simp add: entityTopic_def uniqueID_def g_excessName_def)
  from unknown_topic_handling[OF h, of "''ON''" "startup\<lparr>g_excess := True\<rparr>"] h
  show ?thesis by (simp add: startup_def)
qed

section \<open>Convergence to Normal without acknowledgements\<close>

text \<open>
  Claim C2 asks that, once acknowledgements stop, the mode becomes Normal after enough
  ticks, also when Excess is committed and the request is already Normal. The header
  of the source promises the same: with the broker offline the pump is reverted to
  Normal mode. The paranoid branch of lines 147 to 153 returns before the comparison of
  line 157 is reached, so in that situation the pending Normal request is never
  committed.
\<close>

lemma commitExcessThenOff_globals:
  "globals (run commitExcessThenOff startup) = (False, 1, 0, 0)"
proof -
  let ?cmd = "entityTopic g_excessName @ ''/set''"
  define s1 where "s1 = onMqttMessage ?cmd ''ON'' startup"
  define s2 where "s2 = run (replicate 541 Tick) s1"
  define s3 where "s3 = onMqttPublish 0 s2"
  define s4 where "s4 = run (replicate 58 Tick) s3"
  define s5 where "s5 = updateMode s4"
  define s6 where "s6 = onMqttPublish 0 s5"
  define s7 where "s7 = onMqttMessage ?cmd ''OFF'' s6"
  have g0: "globals startup = (False, 0, 0, 0)"
    by (simp add: globals_def startup_def)
  have g1: "globals s1 = (True, 0, 0, 0)"
    unfolding s1_def using globals_onMqttMessage[OF g0] by simp
  have g2: "globals s2 = (True, 0, 0, 541)"
    unfolding s2_def using globals_ticks_below_dwell[OF g1, of 541] by simp
  have g3: "globals s3 = (True, 0, 541, 541)"
    unfolding s3_def using globals_onMqttPublish[OF g2] by simp
  have g4: "globals s4 = (True, 0, 541, 599)"
    unfolding s4_def using globals_ticks_below_dwell[OF g3, of 58] by simp
  have g5: "globals s5 = (True, 1, 541, 0)"
    unfolding s5_def using globals_updateMode[OF g4] by (simp add: mqttDead_def)
  have g6: "globals s6 = (True, 1, 0, 0)"
    unfolding s6_def using globals_onMqttPublish[OF g5] by simp
  have g7: "globals s7 = (False, 1, 0, 0)"
    unfolding s7_def using globals_onMqttMessage[OF g6] by simp
  have "run (replicate 59 Tick) s3 = s5"
    using run_ticks_Suc[of 58 s3] by (simp add: s4_def s5_def)
  then have "s7 = run [PublishAck 0, Message ?cmd ''OFF''] (run (replicate 59 Tick)
      (run [PublishAck 0] (run (replicate 541 Tick) (run [Message ?cmd ''ON''] startup))))"
    by (simp only: run.simps step.simps s7_def s6_def s3_def s2_def s1_def)
  then have "run commitExcessThenOff startup = s7"
    by (simp only: commitExcessThenOff_def run_append)
  with g7 show ?thesis by simp
qed

text \<open>
  Claim C2 on the run \<open>commitExcessThenOff\<close>: it ends with Excess committed, the
  request Normal and both clocks at 0, and however many ticks follow without an
  acknowledgement, the mode is still Excess.
\<close>

theorem excess_persists_without_acks:
  "globals (run commitExcessThenOff startup) = (False, 1, 0, 0) \<and>
   (\<forall>n. g_currentMode (run (commitExcessThenOff @ replicate n Tick) startup) = 1)"
proof -
  have g: "globals (run commitExcessThenOff startup) = (False, 1, 0, 0)"
    by (rule commitExcessThenOff_globals)
  then have "\<not> g_excess (run commitExcessThenOff startup)"
    and "unat (g_mqttLastResponseTime (run commitExcessThenOff startup)) < 420"
    by (simp_all add: globals_iff)
  then have "g_currentMode (run (replicate n Tick) (run commitExcessThenOff startup)) =
      g_currentMode (run commitExcessThenOff startup)" for n
    by (rule paranoid_ticks)
  with g show ?thesis
    by (simp add: run_append globals_iff)
qed

section \<open>Reset on commit\<close>








section \<open>The lost-acknowledgement scenario\<close>

lemma ackLostAt50_ticks:
  assumes "n < 550"
  shows "g_excess (run (replicate n Tick) ackLostAt50)"
    and "g_currentMode (run (replicate n Tick) ackLostAt50) = 1"
    and "g_mqttLastResponseTime (run (replicate n Tick) ackLostAt50) = 50"
    and "g_currentStateTime (run (replicate n Tick) ackLostAt50) = 50 + of_nat n"
proof -
  have "unat (g_currentStateTime ackLostAt50) + n < 600"
    using assms by (simp add: ackLostAt50_def)
  from ticks_below_dwell[OF this]
  show "g_excess (run (replicate n Tick) ackLostAt50)"
    and "g_currentMode (run (replicate n Tick) ackLostAt50) = 1"
    and "g_mqttLastResponseTime (run (replicate n Tick) ackLostAt50) = 50"
    and "g_currentStateTime (run (replicate n Tick) ackLostAt50) = 50 + of_nat n"
    by (simp_all add: ackLostAt50_def)
qed

lemma ackLostAt50_verdict:
  assumes "n < 550"
  shows "judgedDead (run (replicate n Tick) ackLostAt50) \<longleftrightarrow> n = 549"
proof -
  have "(50 + of_nat n + 1 :: uint32_t) = of_nat (51 + n)"
    by simp
  moreover have "unat (of_nat (51 + n) :: uint32_t) = 51 + n"
    using assms by (intro unat_of_nat32) simp
  ultimately have "unat (50 + of_nat n + 1 :: uint32_t) = 51 + n"
    by (simp only:)
  then have "(50 + of_nat n + 1 :: uint32_t) < 600 \<longleftrightarrow> n < 549"
    by (auto simp add: word_less_nat_alt)
  moreover have "n = 549 \<Longrightarrow> mqttDead (50 + of_nat n + 1) 50"
    by (simp add: mqttDead_def)
  ultimately show ?thesis
    using assms by (auto simp add: judgedDead_iff ackLostAt50_ticks)
qed

text \<open>
  Claim C5 says that in the scenario \<open>g_excess\<close> is forced to false when the clock
  reads 230. The dwell gate of line 136 returns before the deadness test is reached,
  so at 230, and at every reading up to 599, \<open>g_excess\<close> is still true.
\<close>

theorem failsafe_scenario_counterexample:
  "g_currentStateTime (run (replicate 180 Tick) ackLostAt50) = 230 \<and>
   g_excess (run (replicate 180 Tick) ackLostAt50) \<and>
   g_currentStateTime (run (replicate 549 Tick) ackLostAt50) = 599 \<and>
   g_excess (run (replicate 549 Tick) ackLostAt50)"
  by (simp add: ackLostAt50_ticks)

text \<open>
  Claim C5, as amended: from Excess committed and requested with the last
  acknowledgement at clock 50, and ticks only, nothing changes while the clock is below
  600: \<open>g_excess\<close> stays true, the mode stays Excess, and no tick reaches the deadness
  test. The tick that brings the clock to 600 is the first to reach it; it finds
  550 > 180, forces \<open>g_excess\<close> to false and commits Normal at once, which resets the
  clock to 0.
\<close>

theorem failsafe_scenario:
  "(\<forall>n < 550.
      g_excess (run (replicate n Tick) ackLostAt50) \<and>
      g_currentMode (run (replicate n Tick) ackLostAt50) = 1 \<and>
      g_currentStateTime (run (replicate n Tick) ackLostAt50) = 50 + of_nat n \<and>
      (judgedDead (run (replicate n Tick) ackLostAt50) \<longleftrightarrow> n = 549)) \<and>
   globals (run (replicate 550 Tick) ackLostAt50) = (False, 0, 50, 0)"
proof -
  have "run (replicate 550 Tick) ackLostAt50 = updateMode (run (replicate 549 Tick) ackLostAt50)"
    using run_ticks_Suc[of 549 ackLostAt50] by simp
  then have "globals (run (replicate 550 Tick) ackLostAt50) = (False, 0, 50, 0)"
    by (simp add: globals_def updateMode_mode updateMode_time updateMode_excess updateMode_last
          ackLostAt50_ticks mqttDead_def Let_def)
  then show ?thesis
    by (simp add: ackLostAt50_ticks ackLostAt50_verdict)
qed

theorem failsafe_scenario_witness:
  "(180 :: nat) < 550 \<and> g_excess (run (replicate 180 Tick) ackLostAt50) \<and>
   g_currentStateTime (run (replicate 180 Tick) ackLostAt50) = 230 \<and>
   \<not> judgedDead (run (replicate 180 Tick) ackLostAt50)"
  using failsafe_scenario by simp

section \<open>The heartbeat cadence\<close>

lemma modePublishes_onMqttMessage:
  "modePublishes (trace (onMqttMessage t p s)) = modePublishes (trace s)"
  using state_topics_differ
  by (simp add: onMqttMessage_trace modePublishes_simps)

lemma run_Suc_ticks:
  "run (replicate (Suc n) Tick) s = run (replicate n Tick) (updateMode s)"
  by simp

lemma late_commit_publishes:
  "modePublishes (trace (run (replicate 630 Tick @
      [PublishAck 0, Message (entityTopic g_excessName @ ''/set'') ''ON''] @
      replicate 370 Tick) startup)) = 19"
proof -
  define sA where "sA = run (replicate 630 Tick) startup"
  define sB where "sB = onMqttPublish 0 sA"
  define sC where "sC = onMqttMessage (entityTopic g_excessName @ ''/set'') ''ON'' sB"
  define sD where "sD = updateMode sC"
  define sE where "sE = run (replicate 369 Tick) sD"
  have idle: "g_currentMode startup = 0" "\<not> g_excess startup"
    and z: "g_currentStateTime startup = 0" "modePublishes (trace startup) = 0"
    by (simp_all add: startup_def modePublishes_simps)
  have "\<forall>k < 630. g_currentMode (run (replicate (Suc k) Tick) startup) =
              g_currentMode (run (replicate k Tick) startup)"
    by (intro allI impI) (simp only: idle_ticks[OF idle])
  from cadence_without_commit[OF z(1) this]
  have a: "g_currentStateTime sA = 630" "modePublishes (trace sA) = 11"
    by (simp_all add: sA_def z)
  have a': "g_currentMode sA = 0"
    unfolding sA_def by (simp only: idle_ticks[OF idle])
  have b: "modePublishes (trace sB) = 11"
    and gb: "g_currentMode sB = 0" "g_currentStateTime sB = 630" "g_mqttLastResponseTime sB = 630"
    by (simp_all add: sB_def a a')
  have c: "modePublishes (trace sC) = 11"
    and gc: "globals sC = (True, 0, 630, 630)"
    by (simp_all add: sC_def modePublishes_onMqttMessage b gb globals_iff onMqttMessage_excess)
  have gd: "globals sD = (True, 1, 630, 0)"
    unfolding sD_def using globals_updateMode[OF gc] by (simp add: mqttDead_def)
  have d: "modePublishes (trace sD) = 12"
    using gc gd by (simp add: sD_def [symmetric] modePublishes_updateMode c globals_iff)
      (simp add: sD_def modePublishes_updateMode c)
  have still: "g_currentMode (run (replicate k Tick) sD) = 1" if "k \<le> 369" for k
    using globals_ticks_below_dwell[OF gd, of k] that by (simp add: globals_iff)
  have "\<forall>k < 369. g_currentMode (run (replicate (Suc k) Tick) sD) =
              g_currentMode (run (replicate k Tick) sD)"
    by (intro allI impI) (simp only: still Suc_leI less_imp_le)
  from cadence_without_commit[OF _ this]
  have e: "modePublishes (trace sE) = 19"
    using gd by (simp add: sE_def d globals_iff)
  have "run (replicate 370 Tick) sC = sE"
    using run_Suc_ticks[of 369 sC] by (simp add: sE_def sD_def)
  then have "run (replicate 630 Tick @
      [PublishAck 0, Message (entityTopic g_excessName @ ''/set'') ''ON''] @
      replicate 370 Tick) startup = sE"
    by (simp only: run_append run.simps step.simps sA_def sB_def sC_def)
  with e show ?thesis by simp
qed

text \<open>
  Claim C6 says that a tick advances the clock first and publishes when the advanced
  clock is divisible by 60. Line 132 tests the clock before line 136 increments it: the
  tick taken at clock 59 brings the clock to 60 and publishes nothing, and the tick
  taken at clock 0 publishes and leaves the clock at 1. Nor is the count independent of
  transitions: when Excess is commanded after 630 ticks, the next tick commits, and the
  1000 ticks publish the mode 19 times, 18 heartbeats and the publish of the commit.
\<close>

theorem heartbeat_cadence_counterexample:
  "g_currentStateTime (updateMode (startup\<lparr>g_currentStateTime := 59\<rparr>)) = 60 \<and>
   (60 :: uint32_t) mod MQTT_KEEPALIVE_INTERVAL = 0 \<and>
   modePublishes (trace (updateMode (startup\<lparr>g_currentStateTime := 59\<rparr>))) = 0 \<and>
   g_currentStateTime (updateMode startup) = 1 \<and>
   (1 :: uint32_t) mod MQTT_KEEPALIVE_INTERVAL \<noteq> 0 \<and>
   modePublishes (trace (updateMode startup)) = 1 \<and>
   modePublishes (trace (run (replicate 630 Tick @
      [PublishAck 0, Message (entityTopic g_excessName @ ''/set'') ''ON''] @
      replicate 370 Tick) startup)) = 19"
  by (simp only: late_commit_publishes simp_thms)
    (simp add: updateMode_time updateMode_mode modePublishes_updateMode startup_def
        modePublishes_simps Let_def)

text \<open>
  Claim C6, as amended: a tick publishes the mode as a heartbeat exactly when the clock,
  as it stands before the tick advances it, is divisible by
  \<open>MQTT_KEEPALIVE_INTERVAL = 60\<close>, and a tick that commits publishes the mode once
  more. Consequently, from clock 0 and as long as no tick commits, the first \<open>n\<close> ticks
  (\<open>n \<le> 1000\<close>) publish the mode \<open>(n + 59) div 60\<close> times, that is at ticks
  0, 60, 120, ..., and 17 times over 1000 ticks.
\<close>

theorem heartbeat_cadence:
  "modePublishes (trace (updateMode s)) =
     modePublishes (trace s) +
     (if g_currentStateTime s mod MQTT_KEEPALIVE_INTERVAL = 0 then 1 else 0) +
     (if g_currentMode (updateMode s) \<noteq> g_currentMode s then 1 else 0) \<and>
   (g_currentStateTime s = 0 \<and> n \<le> 1000 \<and>
    (\<forall>k < n. g_currentMode (run (replicate (Suc k) Tick) s) =
              g_currentMode (run (replicate k Tick) s)) \<longrightarrow>
    modePublishes (trace (run (replicate n Tick) s)) =
      modePublishes (trace s) + (n + 59) div 60)"
proof -
  have "modePublishes (trace (run (replicate n Tick) s)) =
      modePublishes (trace s) + (n + 59) div 60"
    if "g_currentStateTime s = 0" and "n \<le> 1000"
      and "\<forall>k < n. g_currentMode (run (replicate (Suc k) Tick) s) =
              g_currentMode (run (replicate k Tick) s)"
  proof -
    from that(2) have "n \<le> 2 ^ 32" by simp
    from cadence_without_commit[OF that(1) that(3) this] show ?thesis by simp
  qed
  then show ?thesis
    by (simp add: modePublishes_updateMode)
qed

theorem heartbeat_cadence_witness:
  "g_currentStateTime startup = 0 \<and> (1000 :: nat) \<le> 1000 \<and>
   g_currentMode (run (replicate 1000 Tick) startup) = g_currentMode startup \<and>
   modePublishes (trace (run (replicate 1000 Tick) startup)) = 17"
proof -
  have idle: "g_currentMode startup = 0" "\<not> g_excess startup"
    by (simp_all add: startup_def)
  have h1: "g_currentStateTime startup = 0"
    by (simp add: startup_def)
  have h3: "\<forall>k < 1000. g_currentMode (run (replicate (Suc k) Tick) startup) =
              g_currentMode (run (replicate k Tick) startup)"
    by (intro allI impI) (simp only: idle_ticks[OF idle])
  have z: "modePublishes (trace startup) = 0"
    by (simp add: startup_def modePublishes_simps)
  have h2: "(1000 :: nat) \<le> 1000"
    by simp
  have "g_currentStateTime startup = 0 \<and> (1000 :: nat) \<le> 1000 \<and>
      (\<forall>k < 1000. g_currentMode (run (replicate (Suc k) Tick) startup) =
              g_currentMode (run (replicate k Tick) startup))"
    by (intro conjI h1 h2 h3)
  from mp[OF conjunct2[OF heartbeat_cadence[of startup 1000]] this]
  have "modePublishes (trace (run (replicate 1000 Tick) startup)) =
      modePublishes (trace startup) + (1000 + 59) div 60" .
  then have c: "modePublishes (trace (run (replicate 1000 Tick) startup)) = 17"
    by (simp add: z)
  have m: "g_currentMode (run (replicate 1000 Tick) startup) = g_currentMode startup"
    by (simp only: idle_ticks[OF idle] idle)
  show ?thesis
    by (intro conjI h1 h2 m c)
qed

section \<open>Malformed payloads\<close>

text \<open>
  Claim C7. A message on the command topic whose payload is neither \<open>ON\<close> nor
  \<open>OFF\<close> sets \<open>g_excess\<close> to false, logs the invalid-payload diagnostic and then
  only echoes \<open>OFF\<close> and refreshes the display: the mode and both clocks are
  unchanged, and no pin is written. The handler is a total function, so there is no
  input on which it fails.
\<close>

theorem invalid_payload_safe_default:
  assumes "sPayload \<noteq> ''ON''" and "sPayload \<noteq> ''OFF''"
  shows "g_excess (onMqttMessage (entityTopic g_excessName @ ''/set'') sPayload s) = False \<and>
         g_currentMode (onMqttMessage (entityTopic g_excessName @ ''/set'') sPayload s) =
           g_currentMode s \<and>
         g_currentStateTime (onMqttMessage (entityTopic g_excessName @ ''/set'') sPayload s) =
           g_currentStateTime s \<and>
         g_mqttLastResponseTime (onMqttMessage (entityTopic g_excessName @ ''/set'') sPayload s) =
           g_mqttLastResponseTime s \<and>
         trace (onMqttMessage (entityTopic g_excessName @ ''/set'') sPayload s) =
           trace s @
           [SerialPrintf ''Error: Invalid MQTT payload '%s'.'' [ArgStr sPayload],
            SerialPrintf ''Publishing excess '%s'.\<newline>'' [ArgStr ''OFF''],
            MqttPublish (entityTopic g_excessName @ ''/state'') 1 True ''OFF'',
            Display (g_currentMode s) False (600 - g_currentStateTime s)]"
  using assms by (simp add: onMqttMessage_excess onMqttMessage_trace)

theorem invalid_payload_safe_default_witness:
  "''MAYBE'' \<noteq> ''ON'' \<and> ''MAYBE'' \<noteq> ''OFF'' \<and>
   g_excess (onMqttMessage (entityTopic g_excessName @ ''/set'') ''MAYBE''
     (startup\<lparr>g_excess := True, g_currentMode := 1, g_currentStateTime := 700\<rparr>)) = False \<and>
   g_currentMode (onMqttMessage (entityTopic g_excessName @ ''/set'') ''MAYBE''
     (startup\<lparr>g_excess := True, g_currentMode := 1, g_currentStateTime := 700\<rparr>)) = 1 \<and>
   g_currentStateTime (onMqttMessage (entityTopic g_excessName @ ''/set'') ''MAYBE''
     (startup\<lparr>g_excess := True, g_currentMode := 1, g_currentStateTime := 700\<rparr>)) = 700"
proof -
  have h1: "''MAYBE'' \<noteq> ''ON''" and h2: "''MAYBE'' \<noteq> ''OFF''"
    by simp_all
  from invalid_payload_safe_default[OF h1 h2,
      of "startup\<lparr>g_excess := True, g_currentMode := 1, g_currentStateTime := 700\<rparr>"]
  show ?thesis by (simp add: startup_def)
qed

section \<open>The deadness test and the policy constants\<close>

text \<open>
  Claim C8. For every pair of \<open>uint32_t\<close> clock values the verdict of lines 140 to 142
  is the test \<open>(now - lastResponse) mod 2^32 > 180\<close> on the unsigned values: the
  difference is taken first, modulo \<open>2^32\<close>, and only the difference is compared. The
  constants are 600, 600 / 10 = 60 and 3 * 60 = 180.
\<close>

theorem deadness_verdict:
  "mqttDead now lastResponse = ((uint now - uint lastResponse) mod 2 ^ 32 > 180) \<and>
   MIN_STATE_SECONDS = 600 \<and>
   MQTT_KEEPALIVE_INTERVAL = word_of_int (MIN_STATE_SECONDS div 10) \<and>
   MQTT_KEEPALIVE_INTERVAL = 60 \<and>
   MQTT_DEAD_TIME = 3 * MQTT_KEEPALIVE_INTERVAL \<and>
   MQTT_DEAD_TIME = 180"
proof -
  have "uint (now - lastResponse) = (uint now - uint lastResponse) mod 2 ^ 32"
    by (simp add: uint_word_ariths)
  then have "mqttDead now lastResponse = ((uint now - uint lastResponse) mod 2 ^ 32 > 180)"
    by (simp add: mqttDead_def Let_def word_less_def)
  then show ?thesis
    by (simp add: MIN_STATE_SECONDS_def MQTT_KEEPALIVE_INTERVAL_def MQTT_DEAD_TIME_def)
qed

section \<open>Repeated commands\<close>

text \<open>
  Claim C9. Delivering the same valid command twice leaves the four globals as one
  delivery does. A delivery changes neither clock nor the mode; what it hands to the
  collaborators is the echo of \<open>mqttPublishExcess\<close> (its serial line and the retained
  publish on the switch state topic) followed by the refresh of the status display, and
  the second delivery repeats exactly that. No pin write and no mode publish is among
  them.
\<close>

theorem setDesired_idempotent:
  "globals (setDesired v (setDesired v s)) = globals (setDesired v s) \<and>
   g_excess (setDesired v s) = v \<and>
   g_currentStateTime (setDesired v s) = g_currentStateTime s \<and>
   g_currentMode (setDesired v s) = g_currentMode s \<and>
   g_mqttLastResponseTime (setDesired v s) = g_mqttLastResponseTime s \<and>
   trace (setDesired v s) =
     trace s @
     [SerialPrintf ''Publishing excess '%s'.\<newline>'' [ArgStr (if v then ''ON'' else ''OFF'')],
      MqttPublish (entityTopic g_excessName @ ''/state'') 1 True (if v then ''ON'' else ''OFF''),
      Display (g_currentMode s) v (600 - g_currentStateTime s)] \<and>
   trace (setDesired v (setDesired v s)) =
     trace (setDesired v s) @
     [SerialPrintf ''Publishing excess '%s'.\<newline>'' [ArgStr (if v then ''ON'' else ''OFF'')],
      MqttPublish (entityTopic g_excessName @ ''/state'') 1 True (if v then ''ON'' else ''OFF''),
      Display (g_currentMode s) v (600 - g_currentStateTime s)] \<and>
   filter isPinWrite (trace (setDesired v s)) = filter isPinWrite (trace s) \<and>
   filter isModePublish (trace (setDesired v s)) = filter isModePublish (trace s)"
  by (simp add: setDesired_def globals_def onMqttMessage_excess onMqttMessage_trace
        entityTopic_def uniqueID_def g_excessName_def g_modeName_def)

section \<open>The echo of every message\<close>

text \<open>
  Claim C10. Whatever the topic and the payload, the handler emits at most one
  diagnostic and then publishes the value \<open>g_excess\<close> has on return, as the retained
  token \<open>ON\<close> or \<open>OFF\<close> with qos 1 on \<open>sgready_board_Excess/state\<close>; only the
  display refresh follows. For an unknown topic the published token is \<open>OFF\<close>.
\<close>

theorem courtesy_echo_unconditional:
  "trace (onMqttMessage sTopic sPayload s) =
     trace s @
     (if sTopic = entityTopic g_excessName @ ''/set''
      then (if sPayload = ''ON'' \<or> sPayload = ''OFF'' then []
            else [SerialPrintf ''Error: Invalid MQTT payload '%s'.'' [ArgStr sPayload]])
      else [SerialPrintf ''Error: MQTT message for unknown topic '%s'.'' [ArgStr sTopic]]) @
     [SerialPrintf ''Publishing excess '%s'.\<newline>''
        [ArgStr (if g_excess (onMqttMessage sTopic sPayload s) then ''ON'' else ''OFF'')],
      MqttPublish ''sgready_board_Excess/state'' 1 True
        (if g_excess (onMqttMessage sTopic sPayload s) then ''ON'' else ''OFF''),
      Display (g_currentMode s) (g_excess (onMqttMessage sTopic sPayload s))
        (600 - g_currentStateTime s)]"
  by (simp add: onMqttMessage_trace) (simp add: entityTopic_def uniqueID_def g_excessName_def)

end
